theory Spec2Isabelle
  imports Complex_Main "HOL-Library.Log_Nat" "HOL-Library.Word"
begin

section \<open>Single-precision arithmetic\<close>

text \<open>
  Every time value of \<^verbatim>\<open>main.cpp\<close> is a C++ \<^verbatim>\<open>float\<close>. A finite \<^verbatim>\<open>float\<close> is
  modelled by the real number it denotes; an arithmetic operation computes the exact
  result and rounds it to the nearest binary32 value, ties to the even significand
  (IEEE 754, each operation rounded to \<^verbatim>\<open>float\<close>). A binary32 value is an integer
  multiple of \<open>2 ^ e\<close> with a significand below \<open>2 ^ 24\<close> and \<open>e \<ge> -149\<close>: the
  exact result is counted in units of \<open>2\<^sup>-\<^sup>1\<^sup>4\<^sup>9\<close>, and whatever exceeds 24 bits is
  rounded away. Infinities and NaN are outside the model: \<open>is_float\<close> bounds a value
  below \<open>2 ^ 128\<close>. The sign of zero is not modelled (no operation of the program
  observes it).
\<close>

definition round_half_even :: "real \<Rightarrow> int" where
  "round_half_even q =
     (let f = \<lfloor>q\<rfloor> in
      if q - of_int f < 1 / 2 then f
      else if 1 / 2 < q - of_int f then f + 1
      else if even f then f else f + 1)"

definition float_round :: "real \<Rightarrow> real" where
  "float_round a =
     (let n = \<bar>a\<bar> * 2 ^ 149;
          sh = nat (bitlen \<lfloor>n\<rfloor> - 24);
          m = round_half_even (n / 2 ^ sh)
      in sgn a * (of_int m * 2 ^ sh / 2 ^ 149))"

definition is_float :: "real \<Rightarrow> bool" where
  "is_float a \<longleftrightarrow> float_round a = a \<and> \<bar>a\<bar> < 2 ^ 128"

definition fadd :: "real \<Rightarrow> real \<Rightarrow> real" where
  "fadd a b = float_round (a + b)"

definition fsub :: "real \<Rightarrow> real \<Rightarrow> real" where
  "fsub a b = float_round (a - b)"

definition fdiv :: "real \<Rightarrow> real \<Rightarrow> real" where
  "fdiv a b = float_round (a / b)"

text \<open>\<^verbatim>\<open>#define FIXED_TIMESTEP 0.0166666f\<close>: the literal, rounded to \<^verbatim>\<open>float\<close>.\<close>

definition FIXED_TIMESTEP :: real where
  "FIXED_TIMESTEP = float_round (166666 / 10000000)"

text \<open>\<^verbatim>\<open>#define ACC_OF_GRAVITY -1.62f\<close> and \<^verbatim>\<open>#define PLATFORM_COUNT 9\<close>.\<close>

definition ACC_OF_GRAVITY :: real where
  "ACC_OF_GRAVITY = float_round (- 162 / 100)"

definition PLATFORM_COUNT :: nat where
  "PLATFORM_COUNT = 9"

definition MILLISECONDS_IN_SECOND :: real where
  "MILLISECONDS_IN_SECOND = float_round 1000"

section \<open>Entities and the game state\<close>

datatype vec3 = vec3 (vec_x: real) (vec_y: real) (vec_z: real)

text \<open>
  Modelled from the spec: the class \<^verbatim>\<open>Entity\<close> (\<^verbatim>\<open>Entity.h\<close> and \<^verbatim>\<open>Entity.cpp\<close> are not
  among the sources). The record has the members \<^verbatim>\<open>main.cpp\<close> reads or writes, and the
  velocity the spec's data model names; the entity type is the spec's variant
  PLAYER, WIN_PLATFORM, DEATH_PLATFORM; the booster levels are the enumerators
  \<^verbatim>\<open>IDLE\<close>, \<^verbatim>\<open>LOW\<close>, \<^verbatim>\<open>HIGH\<close> that \<^verbatim>\<open>initialise\<close> uses.
\<close>

datatype EntityType = PLAYER | WIN_PLATFORM | DEATH_PLATFORM

datatype BoosterLevel = IDLE | LOW | HIGH

record Entity =
  m_position :: vec3
  m_movement :: vec3
  m_velocity :: vec3
  m_acceleration :: vec3
  m_speed :: real
  m_width :: real
  m_height :: real
  m_entity_type :: EntityType
  m_texture_id :: nat
  m_booster :: "BoosterLevel \<Rightarrow> int list"
  m_animation_indices :: "int list"
  m_animation_index :: int
  m_animation_time :: real
  m_animation_cols :: int
  m_animation_rows :: int
  m_booster_active :: bool
  m_boosting_power :: real
  m_drag :: real

record GameState =
  player :: Entity
  platforms :: "Entity list"

text \<open>The global variables of \<^verbatim>\<open>main.cpp\<close> that the simulation reads or writes.\<close>

record globals =
  g_game_state :: GameState
  g_game_is_running :: bool
  g_win :: bool
  g_loss :: bool
  g_previous_ticks :: real
  g_time_accumulator :: real
  g_text_texture_id :: nat

text \<open>
  Modelled from the spec: the contract of \<^verbatim>\<open>Entity::update\<close> (its body is in
  \<^verbatim>\<open>Entity.cpp\<close>, not among the sources). The spec gives
  \<^verbatim>\<open>update(delta_time, platforms, platform_count, in-out won, in-out loss)\<close>: the call
  may change the entity it is invoked on and the two flags passed by reference; the
  platforms are an input. The functions of \<^verbatim>\<open>main.cpp\<close> take the method as a
  parameter of this type.
\<close>

type_synonym entity_update =
  "Entity \<Rightarrow> real \<Rightarrow> Entity list \<Rightarrow> nat \<Rightarrow> bool \<Rightarrow> bool \<Rightarrow> Entity \<times> bool \<times> bool"

section \<open>The fixed-timestep loop\<close>

text \<open>
  The call \<^verbatim>\<open>g_game_state.player->update(FIXED_TIMESTEP, g_game_state.platforms,
  PLATFORM_COUNT, g_win, g_loss)\<close> of line 319: one physics step.
\<close>

definition physics_step :: "entity_update \<Rightarrow> globals \<Rightarrow> globals" where
  "physics_step upd g =
     (case upd (player (g_game_state g)) FIXED_TIMESTEP (platforms (g_game_state g))
             PLATFORM_COUNT (g_win g) (g_loss g) of
        (p, w, l) \<Rightarrow>
          g\<lparr>g_game_state := (g_game_state g)\<lparr>player := p\<rparr>, g_win := w, g_loss := l\<rparr>)"

text \<open>
  The \<^verbatim>\<open>while (delta_time >= FIXED_TIMESTEP)\<close> loop of lines 316 to 321. In
  \<^verbatim>\<open>float\<close> arithmetic the subtraction can leave a large \<^verbatim>\<open>delta_time\<close> unchanged, so
  the loop need not end: not returning is the value \<open>None\<close>.
\<close>

partial_function (option) physics_steps ::
  "entity_update \<Rightarrow> real \<Rightarrow> globals \<Rightarrow> (real \<times> globals) option" where
  "physics_steps upd delta_time g =
     (if FIXED_TIMESTEP \<le> delta_time
      then physics_steps upd (fsub delta_time FIXED_TIMESTEP) (physics_step upd g)
      else Some (delta_time, g))"

definition game_loop :: "entity_update \<Rightarrow> real \<Rightarrow> globals \<Rightarrow> globals option" where
  "game_loop upd delta_time g =
     (let delta_time = fadd delta_time (g_time_accumulator g) in
      if delta_time < FIXED_TIMESTEP
      then Some (g\<lparr>g_time_accumulator := delta_time\<rparr>)
      else (case physics_steps upd delta_time g of
              None \<Rightarrow> None
            | Some (delta_time, g') \<Rightarrow> Some (g'\<lparr>g_time_accumulator := delta_time\<rparr>)))"

section \<open>The per-frame update\<close>

text \<open>
  \<^verbatim>\<open>update\<close>, lines 326 to 337. \<^verbatim>\<open>SDL_GetTicks()\<close> returns a \<^verbatim>\<open>Uint32\<close> count of
  milliseconds, an input of the model; it is converted to \<^verbatim>\<open>float\<close> and divided by
  \<^verbatim>\<open>MILLISECONDS_IN_SECOND\<close>.
\<close>

definition update :: "entity_update \<Rightarrow> 32 word \<Rightarrow> globals \<Rightarrow> globals option" where
  "update upd SDL_GetTicks g =
     (let ticks = fdiv (float_round (real (unat SDL_GetTicks))) MILLISECONDS_IN_SECOND;
          delta_time = fsub ticks (g_previous_ticks g);
          g = g\<lparr>g_previous_ticks := ticks\<rparr>
      in if \<not> g_win g \<and> \<not> g_loss g then game_loop upd delta_time g else Some g)"

section \<open>Input\<close>

text \<open>
  The events and keys \<^verbatim>\<open>process_input\<close> distinguishes: the event types \<^verbatim>\<open>SDL_QUIT\<close>,
  \<^verbatim>\<open>SDL_WINDOWEVENT_CLOSE\<close> and \<^verbatim>\<open>SDL_KEYDOWN\<close> (with its key symbol, \<^verbatim>\<open>SDLK_q\<close> or
  another), any other event, and the six scancodes read from the keyboard state.
\<close>

datatype SDL_Keycode = SDLK_q | SDLK_other

datatype SDL_Event = SDL_QUIT | SDL_WINDOWEVENT_CLOSE | SDL_KEYDOWN SDL_Keycode | SDL_OTHEREVENT

datatype SDL_Scancode =
  SDL_SCANCODE_UP | SDL_SCANCODE_W | SDL_SCANCODE_LEFT | SDL_SCANCODE_A
  | SDL_SCANCODE_RIGHT | SDL_SCANCODE_D

text \<open>\<^verbatim>\<open>glm::length\<close> and \<^verbatim>\<open>glm::normalize\<close> of the GLM library: the Euclidean norm of a
  vector, and the vector scaled by the inverse of its norm.\<close>

definition glm_length :: "vec3 \<Rightarrow> real" where
  "glm_length v = sqrt (vec_x v * vec_x v + vec_y v * vec_y v + vec_z v * vec_z v)"

definition glm_normalize :: "vec3 \<Rightarrow> vec3" where
  "glm_normalize v =
     (let k = 1 / glm_length v in vec3 (vec_x v * k) (vec_y v * k) (vec_z v * k))"

text \<open>An operation on \<^verbatim>\<open>g_game_state.player\<close>.\<close>

definition on_player :: "(Entity \<Rightarrow> Entity) \<Rightarrow> globals \<Rightarrow> globals" where
  "on_player f g = g\<lparr>g_game_state := (g_game_state g)\<lparr>player := f (player (g_game_state g))\<rparr>\<rparr>"

text \<open>Lines 251 and 252.\<close>

definition reset_intent :: "globals \<Rightarrow> globals" where
  "reset_intent g = on_player (\<lambda>p. p\<lparr>m_movement := vec3 0 0 0, m_booster_active := False\<rparr>) g"

text \<open>The body of the \<^verbatim>\<open>while (SDL_PollEvent(&event))\<close> loop, lines 257 to 277, and the
  loop over the pending events.\<close>

fun handle_event :: "SDL_Event \<Rightarrow> globals \<Rightarrow> globals" where
  "handle_event SDL_QUIT g = g\<lparr>g_game_is_running := False\<rparr>"
| "handle_event SDL_WINDOWEVENT_CLOSE g = g\<lparr>g_game_is_running := False\<rparr>"
| "handle_event (SDL_KEYDOWN SDLK_q) g = g\<lparr>g_game_is_running := False\<rparr>"
| "handle_event (SDL_KEYDOWN SDLK_other) g = g"
| "handle_event SDL_OTHEREVENT g = g"

definition poll_events :: "SDL_Event list \<Rightarrow> globals \<Rightarrow> globals" where
  "poll_events events g = fold handle_event events g"

text \<open>The \<^verbatim>\<open>if\<close> / \<^verbatim>\<open>else if\<close> chain of lines 282 to 293. \<^verbatim>\<open>Entity::move_left\<close> and
  \<^verbatim>\<open>Entity::move_right\<close> are declared in \<^verbatim>\<open>Entity.h\<close>, which is not among the sources, and
  the spec does not say what they set the movement to: they are the parameters
  \<open>move_left\<close> and \<open>move_right\<close>.\<close>

definition apply_key_state ::
  "(Entity \<Rightarrow> Entity) \<Rightarrow> (Entity \<Rightarrow> Entity) \<Rightarrow> (SDL_Scancode \<Rightarrow> bool) \<Rightarrow> globals \<Rightarrow> globals" where
  "apply_key_state move_left move_right key_state g =
     (if key_state SDL_SCANCODE_UP \<or> key_state SDL_SCANCODE_W
      then on_player (\<lambda>p. p\<lparr>m_booster_active := True\<rparr>) g
      else if key_state SDL_SCANCODE_LEFT \<or> key_state SDL_SCANCODE_A
      then on_player move_left g
      else if key_state SDL_SCANCODE_RIGHT \<or> key_state SDL_SCANCODE_D
      then on_player move_right g
      else g)"

text \<open>Lines 296 to 299.\<close>

definition normalise_movement :: "globals \<Rightarrow> globals" where
  "normalise_movement g =
     (if 1 < glm_length (m_movement (player (g_game_state g)))
      then on_player (\<lambda>p. p\<lparr>m_movement := glm_normalize (m_movement p)\<rparr>) g
      else g)"

definition process_input ::
  "(Entity \<Rightarrow> Entity) \<Rightarrow> (Entity \<Rightarrow> Entity) \<Rightarrow> SDL_Event list \<Rightarrow> (SDL_Scancode \<Rightarrow> bool)
   \<Rightarrow> globals \<Rightarrow> globals" where
  "process_input move_left move_right events key_state g =
     normalise_movement
       (apply_key_state move_left move_right key_state (poll_events events (reset_intent g)))"

section \<open>The driver loop\<close>

text \<open>
  What one iteration of the loop in \<^verbatim>\<open>main\<close> reads from outside: the pending events,
  the keyboard state and the tick count. \<^verbatim>\<open>render\<close> draws and writes no variable of
  the program, so it has no part in the state. The loop runs over the inputs of
  successive frames and stops when \<^verbatim>\<open>g_game_is_running\<close> is false.
\<close>

record frame_input =
  pending_events :: "SDL_Event list"
  keyboard :: "SDL_Scancode \<Rightarrow> bool"
  tick_count :: "32 word"

fun main_loop ::
  "entity_update \<Rightarrow> (Entity \<Rightarrow> Entity) \<Rightarrow> (Entity \<Rightarrow> Entity) \<Rightarrow> frame_input list
   \<Rightarrow> globals \<Rightarrow> globals option" where
  "main_loop upd ml mr [] g = Some g"
| "main_loop upd ml mr (i # inputs) g =
     (if g_game_is_running g
      then (case update upd (tick_count i)
                   (process_input ml mr (pending_events i) (keyboard i) g) of
              None \<Rightarrow> None
            | Some g' \<Rightarrow> main_loop upd ml mr inputs g')
      else Some g)"


section \<open>Textures and initialisation\<close>

text \<open>
  What lies outside the program: the standard output, and the textures of the
  OpenGL context (\<^verbatim>\<open>glGenTextures\<close> hands out the next unused name,
  \<^verbatim>\<open>glTexImage2D\<close> stores the image under it). \<^verbatim>\<open>stbi_load\<close> is a parameter: the
  decoded image of a path, or \<open>None\<close> for the null pointer.

  \<^verbatim>\<open>std::cout\<close> writes through the buffer of \<^verbatim>\<open>stdout\<close>. The buffer is line-buffered
  when the standard output is a terminal, so the newline character delivers the
  line; otherwise it is fully buffered and the characters wait in it (the one line
  of this program never fills it). \<^verbatim>\<open>LOG\<close>, line 1, writes its argument and a newline
  character and does not flush.
\<close>

type_synonym image = "int \<times> int \<times> 8 word list"

record outside =
  stdout_is_terminal :: bool
  stdout_buffer :: string
  console :: string
  textures :: "image list"

definition LOG :: "string \<Rightarrow> outside \<Rightarrow> outside" where
  "LOG argument w =
     (let pending = stdout_buffer w @ argument @ [CHR 0x0A]
      in if stdout_is_terminal w
         then w\<lparr>stdout_buffer := [], console := console w @ pending\<rparr>
         else w\<lparr>stdout_buffer := pending\<rparr>)"

text \<open>
  \<^verbatim>\<open>assert(false)\<close>, line 147, ends the process through \<^verbatim>\<open>abort\<close> (assertions are
  compiled in: nothing defines \<^verbatim>\<open>NDEBUG\<close>). \<^verbatim>\<open>abort\<close> does not flush the buffers of
  open streams: what waits in the buffer of \<^verbatim>\<open>stdout\<close> is lost with the process. The
  diagnostic that \<^verbatim>\<open>assert\<close> itself prints goes to the standard error stream, which
  is not part of the model.
\<close>

datatype abort = Assertion_failure

definition assert_false :: "outside \<Rightarrow> outside" where
  "assert_false w = w\<lparr>stdout_buffer := []\<rparr>"

definition load_texture ::
  "(string \<Rightarrow> image option) \<Rightarrow> string \<Rightarrow> outside \<Rightarrow> (abort + nat) \<times> outside" where
  "load_texture stbi_load filepath w =
     (case stbi_load filepath of
        None \<Rightarrow>
          (Inl Assertion_failure,
           assert_false (LOG ''Unable to load image. Make sure the path is correct.'' w))
      | Some img \<Rightarrow>
          (let textureID = Suc (length (textures w))
           in (Inr textureID, w\<lparr>textures := textures w @ [img]\<rparr>)))"

definition SPRITESHEET_FILEPATH :: string where
  "SPRITESHEET_FILEPATH = ''assets/ship.png''"

definition DEATH_PLATFORM_FILEPATH :: string where
  "DEATH_PLATFORM_FILEPATH = ''assets/rock.png''"

definition WIN_PLATFORM_FILEPATH :: string where
  "WIN_PLATFORM_FILEPATH = ''assets/stone.png''"

definition FONT_SPRITE_FILEPATH :: string where
  "FONT_SPRITE_FILEPATH = ''assets/font1.png''"

text \<open>A conditional \<^verbatim>\<open>e.m_texture_id = load_texture(filepath)\<close>, as in lines 234 and 235.\<close>

definition load_texture_if ::
  "bool \<Rightarrow> (string \<Rightarrow> image option) \<Rightarrow> string \<Rightarrow> Entity \<Rightarrow> outside \<Rightarrow> (abort + Entity) \<times> outside" where
  "load_texture_if c stbi_load filepath e w =
     (if c
      then (case load_texture stbi_load filepath w of
              (Inl a, w') \<Rightarrow> (Inl a, w')
            | (Inr t, w') \<Rightarrow> (Inr (e\<lparr>m_texture_id := t\<rparr>), w'))
      else (Inr e, w))"

text \<open>
  The loop of lines 225 to 238 over the indices \<open>i\<close>, on the array allocated in line
  223. The two draws of iteration \<open>i\<close> from the generator are \<open>rng i\<close>: the integer
  of \<^verbatim>\<open>uniform_int_distribution<>{0, 1}\<close>, read as a \<^verbatim>\<open>bool\<close>, and the integer of
  \<^verbatim>\<open>uniform_int_distribution<>{-3, 1}\<close>, converted to \<^verbatim>\<open>float\<close>. Every index the loop
  uses is within the array.
\<close>

fun create_platforms ::
  "entity_update \<Rightarrow> (string \<Rightarrow> image option) \<Rightarrow> (nat \<Rightarrow> int \<times> int) \<Rightarrow> nat list
   \<Rightarrow> Entity list \<times> bool \<times> bool \<Rightarrow> outside
   \<Rightarrow> (abort + Entity list \<times> bool \<times> bool) \<times> outside" where
  "create_platforms upd stbi_load rng [] s w = (Inr s, w)"
| "create_platforms upd stbi_load rng (i # is) (ps, win, loss) w =
     (let rand_bool = (fst (rng i) \<noteq> 0);
          rand_float = float_round (real_of_int (snd (rng i)));
          e = (ps ! i)\<lparr>m_position := vec3 (fsub (float_round (real i)) 4) rand_float 0\<rparr>;
          platformType = (if rand_bool then WIN_PLATFORM else DEATH_PLATFORM);
          e = e\<lparr>m_entity_type := platformType\<rparr>
      in case load_texture_if (platformType = WIN_PLATFORM) stbi_load WIN_PLATFORM_FILEPATH e w of
           (Inl a, w) \<Rightarrow> (Inl a, w)
         | (Inr e, w) \<Rightarrow>
             (case load_texture_if (platformType = DEATH_PLATFORM) stbi_load
                     DEATH_PLATFORM_FILEPATH e w of
                (Inl a, w) \<Rightarrow> (Inl a, w)
              | (Inr e, w) \<Rightarrow>
                  (case upd e 0 [] 0 win loss of
                     (e, win, loss) \<Rightarrow>
                       create_platforms upd stbi_load rng is (ps[i := e], win, loss) w)))"

text \<open>
  \<^verbatim>\<open>initialise\<close>, lines 166 to 246, without the window, the shader and the blending
  set-up. \<open>new_Entity\<close> is the default-constructed entity (the constructor is in
  \<^verbatim>\<open>Entity.cpp\<close>). The globals start from their initialisers of lines 66 to 74.
\<close>

definition initialise ::
  "entity_update \<Rightarrow> Entity \<Rightarrow> (string \<Rightarrow> image option) \<Rightarrow> (nat \<Rightarrow> int \<times> int) \<Rightarrow> outside
   \<Rightarrow> (abort + globals) \<times> outside" where
  "initialise upd new_Entity stbi_load rng w =
     (let p = new_Entity\<lparr>m_position := vec3 0 3 0, m_movement := vec3 0 0 0,
                m_acceleration := vec3 0 ACC_OF_GRAVITY 0, m_speed := 2\<rparr>
      in case load_texture_if True stbi_load SPRITESHEET_FILEPATH p w of
           (Inl a, w) \<Rightarrow> (Inl a, w)
         | (Inr p, w) \<Rightarrow>
             (let p = p\<lparr>m_booster := (m_booster p)(IDLE := [0], LOW := [1], HIGH := [2])\<rparr>;
                  p = p\<lparr>m_animation_indices := m_booster p IDLE, m_animation_index := 0,
                        m_animation_time := 0, m_animation_cols := 3, m_animation_rows := 1,
                        m_height := float_round (8 / 10), m_width := float_round (8 / 10),
                        m_boosting_power := float_round (1 / 10),
                        m_drag := float_round (8 / 10)\<rparr>
              in case create_platforms upd stbi_load rng [0..<PLATFORM_COUNT]
                        (replicate PLATFORM_COUNT new_Entity, False, False) w of
                   (Inl a, w) \<Rightarrow> (Inl a, w)
                 | (Inr (ps, win, loss), w) \<Rightarrow>
                     (case load_texture stbi_load FONT_SPRITE_FILEPATH w of
                        (Inl a, w) \<Rightarrow> (Inl a, w)
                      | (Inr font, w) \<Rightarrow>
                          (Inr \<lparr>g_game_state = \<lparr>player = p, platforms = ps\<rparr>,
                                g_game_is_running = True, g_win = win, g_loss = loss,
                                g_previous_ticks = 0, g_time_accumulator = 0,
                                g_text_texture_id = font\<rparr>, w))))"

section \<open>The physics step of the spec\<close>

text \<open>
  Modelled from the spec: the collision test of \<^verbatim>\<open>Entity.cpp\<close> (not among the
  sources), "axis-aligned bounding-box overlap test using each entity's position
  \<plusminus> half width/height": the two boxes overlap on both axes.
\<close>

definition check_collision :: "Entity \<Rightarrow> Entity \<Rightarrow> bool" where
  "check_collision a b \<longleftrightarrow>
     vec_x (m_position a) - m_width a / 2 < vec_x (m_position b) + m_width b / 2
     \<and> vec_x (m_position b) - m_width b / 2 < vec_x (m_position a) + m_width a / 2
     \<and> vec_y (m_position a) - m_height a / 2 < vec_y (m_position b) + m_height b / 2
     \<and> vec_y (m_position b) - m_height b / 2 < vec_y (m_position a) + m_height a / 2"

text \<open>
  Modelled from the spec: \<^verbatim>\<open>Entity::update\<close> (\<^verbatim>\<open>Entity.cpp\<close> is not among the sources).
  Only an entity of the PLAYER variant integrates and checks collisions; a platform's
  own update changes none of its members. The kinematics and animation of the step,
  which the spec gives in prose only, are the parameter \<open>integrate\<close>. After
  integration the platforms are tested in array order and the first overlapping one
  determines the outcome: a WIN_PLATFORM sets \<open>won\<close>, a DEATH_PLATFORM sets \<open>loss\<close>,
  and a later overlapping platform is not applied.
\<close>

definition Entity_update :: "(real \<Rightarrow> Entity \<Rightarrow> Entity) \<Rightarrow> entity_update" where
  "Entity_update integrate e delta_time collidable_entities collidable_entity_count win loss =
     (if m_entity_type e = PLAYER
      then (let e = integrate delta_time e
            in case find (check_collision e)
                      (take collidable_entity_count collidable_entities) of
                 None \<Rightarrow> (e, win, loss)
               | Some p \<Rightarrow>
                   (if m_entity_type p = WIN_PLATFORM then (e, True, loss)
                    else if m_entity_type p = DEATH_PLATFORM then (e, win, True)
                    else (e, win, loss)))
      else (e, win, loss))"

section \<open>The steps a frame runs\<close>


text \<open>
  \<^verbatim>\<open>delta_time\<close> after \<open>n\<close> subtractions of line 320, and the loop of lines 316 to 321
  making exactly \<open>n\<close> iterations when entered with \<^verbatim>\<open>delta_time\<close>: the condition of
  line 316 holds before each of them and fails after the last. No iteration is also
  the early return of line 312.
\<close>

fun after_steps :: "nat \<Rightarrow> real \<Rightarrow> real" where
  "after_steps 0 delta_time = delta_time"
| "after_steps (Suc n) delta_time = after_steps n (fsub delta_time FIXED_TIMESTEP)"

fun runs_steps :: "real \<Rightarrow> nat \<Rightarrow> bool" where
  "runs_steps delta_time 0 \<longleftrightarrow> delta_time < FIXED_TIMESTEP"
| "runs_steps delta_time (Suc n) \<longleftrightarrow>
     FIXED_TIMESTEP \<le> delta_time \<and> runs_steps (fsub delta_time FIXED_TIMESTEP) n"



section \<open>Example values\<close>

text \<open>
  Concrete values on which the theorems below are instantiated: an entity with all
  members zero, a step that lets an entity fall at unit speed, the lander at its
  starting position above a rock and a stone that its box both overlaps after one
  step, and a file system that has every asset or none.
\<close>

definition zero_Entity :: Entity where
  "zero_Entity =
     \<lparr>m_position = vec3 0 0 0, m_movement = vec3 0 0 0, m_velocity = vec3 0 0 0,
      m_acceleration = vec3 0 0 0, m_speed = 0, m_width = 0, m_height = 0,
      m_entity_type = PLAYER, m_texture_id = 0, m_booster = (\<lambda>_. []),
      m_animation_indices = [], m_animation_index = 0, m_animation_time = 0,
      m_animation_cols = 0, m_animation_rows = 0, m_booster_active = False,
      m_boosting_power = 0, m_drag = 0\<rparr>"

definition fall :: "real \<Rightarrow> Entity \<Rightarrow> Entity" where
  "fall delta_time e =
     e\<lparr>m_position := vec3 (vec_x (m_position e)) (vec_y (m_position e) - delta_time)
                         (vec_z (m_position e))\<rparr>"

definition lander :: Entity where
  "lander = zero_Entity\<lparr>m_position := vec3 0 3 0, m_width := 1, m_height := 1\<rparr>"

definition rock :: Entity where
  "rock = zero_Entity\<lparr>m_position := vec3 0 2 0, m_width := 1, m_height := 1,
            m_entity_type := DEATH_PLATFORM\<rparr>"

definition stone :: Entity where
  "stone = zero_Entity\<lparr>m_position := vec3 (1 / 2) 3 0, m_width := 1, m_height := 1,
             m_entity_type := WIN_PLATFORM\<rparr>"

definition example_globals :: globals where
  "example_globals =
     \<lparr>g_game_state = \<lparr>player = lander, platforms = [rock, stone]\<rparr>,
      g_game_is_running = True, g_win = False, g_loss = False,
      g_previous_ticks = 0, g_time_accumulator = 0, g_text_texture_id = 0\<rparr>"

definition all_assets :: "string \<Rightarrow> image option" where
  "all_assets filepath = Some (1, 1, [0, 0, 0, 0])"

definition no_assets :: "string \<Rightarrow> image option" where
  "no_assets filepath = None"

definition coin_and_height :: "nat \<Rightarrow> int \<times> int" where
  "coin_and_height i = (int (i mod 2), int (i mod 5) - 3)"

text \<open>The outside at the start of the process, with the standard output a terminal
  and with the standard output redirected to a file or a pipe.\<close>

definition empty_outside :: outside where
  "empty_outside =
     \<lparr>stdout_is_terminal = True, stdout_buffer = [], console = [], textures = []\<rparr>"

definition redirected_outside :: outside where
  "redirected_outside =
     \<lparr>stdout_is_terminal = False, stdout_buffer = [], console = [], textures = []\<rparr>"

text \<open>Functions to put in the place of \<^verbatim>\<open>Entity::move_left\<close> and \<^verbatim>\<open>Entity::move_right\<close>
  when a theorem is instantiated: they set the lateral component of the movement to
  \<open>-1\<close> and \<open>1\<close>, a third one to \<open>-2\<close>.\<close>

definition steer_left :: "Entity \<Rightarrow> Entity" where
  "steer_left e =
     e\<lparr>m_movement := vec3 (- 1) (vec_y (m_movement e)) (vec_z (m_movement e))\<rparr>"

definition steer_right :: "Entity \<Rightarrow> Entity" where
  "steer_right e =
     e\<lparr>m_movement := vec3 1 (vec_y (m_movement e)) (vec_z (m_movement e))\<rparr>"

definition steer_far_left :: "Entity \<Rightarrow> Entity" where
  "steer_far_left e =
     e\<lparr>m_movement := vec3 (- 2) (vec_y (m_movement e)) (vec_z (m_movement e))\<rparr>"

definition up_and_left :: "SDL_Scancode \<Rightarrow> bool" where
  "up_and_left k \<longleftrightarrow> k = SDL_SCANCODE_UP \<or> k = SDL_SCANCODE_LEFT"

definition only_left :: "SDL_Scancode \<Rightarrow> bool" where
  "only_left k \<longleftrightarrow> k = SDL_SCANCODE_LEFT"

definition no_keys :: "SDL_Scancode \<Rightarrow> bool" where
  "no_keys k \<longleftrightarrow> False"

definition frame_17 :: frame_input where
  "frame_17 = \<lparr>pending_events = [SDL_OTHEREVENT], keyboard = only_left, tick_count = 17\<rparr>"

text \<open>The tick count 17, in seconds as a \<^verbatim>\<open>float\<close>, and what a step leaves of it.\<close>

definition seventeen_ms :: real where
  "seventeen_ms = 9126806 / 2 ^ 29"

definition seventeen_ms_rest :: real where
  "seventeen_ms_rest = 178993 / 2 ^ 29"




section \<open>Properties of the platforms\<close>

text \<open>
  What the spec says of a platform's own update, called in line 237 with a zero
  delta and no collidable entities: it leaves the position and the type of the
  platform as they are.
\<close>

definition platform_update_keeps :: "entity_update \<Rightarrow> bool" where
  "platform_update_keeps upd \<longleftrightarrow>
     (\<forall>e win loss. m_entity_type e \<noteq> PLAYER \<longrightarrow>
        m_position (fst (upd e 0 [] 0 win loss)) = m_position e
        \<and> m_entity_type (fst (upd e 0 [] 0 win loss)) = m_entity_type e)"

text \<open>The type and the position that iteration \<open>i\<close> of the loop gives a platform from
  its two random draws (lines 227 to 232).\<close>

definition created :: "(nat \<Rightarrow> int \<times> int) \<Rightarrow> nat \<Rightarrow> Entity \<Rightarrow> bool" where
  "created rng i e \<longleftrightarrow>
     m_entity_type e = (if fst (rng i) \<noteq> 0 then WIN_PLATFORM else DEATH_PLATFORM)
     \<and> m_position e
        = vec3 (fsub (float_round (real i)) 4) (float_round (real_of_int (snd (rng i)))) 0"

section \<open>Facts about rounding\<close>

lemma round_half_even_nonneg: "0 \<le> q \<Longrightarrow> 0 \<le> round_half_even q"
  by (simp add: round_half_even_def Let_def)

lemma float_round_zero: "float_round 0 = 0"
  by (simp add: float_round_def)

lemma float_round_nonneg: "0 \<le> a \<Longrightarrow> 0 \<le> float_round a"
  by (simp add: float_round_def Let_def round_half_even_nonneg)

text \<open>
  Known binary32 values: the literal \<^verbatim>\<open>0.1f\<close>; a tie rounded down and a tie rounded up
  to the even significand; the first integer that is not a \<^verbatim>\<open>float\<close>; the smallest
  subnormal number, and half of it.
\<close>

lemma float_round_examples:
  "float_round (1 / 10) = 13421773 / 2 ^ 27"
  "float_round (1 + 1 / 2 ^ 24) = 1"
  "float_round (1 + 3 / 2 ^ 24) = 1 + 1 / 2 ^ 22"
  "float_round 16777217 = 16777216"
  "float_round (1 / 2 ^ 149) = 1 / 2 ^ 149"
  "float_round (1 / 2 ^ 150) = 0"
  by code_simp+

lemma FIXED_TIMESTEP_value: "FIXED_TIMESTEP = 8947813 / 2 ^ 29"
  unfolding FIXED_TIMESTEP_def by code_simp

lemma FIXED_TIMESTEP_pos: "0 < FIXED_TIMESTEP"
  by (simp add: FIXED_TIMESTEP_value)

lemma is_float_FIXED_TIMESTEP: "is_float FIXED_TIMESTEP"
  unfolding is_float_def FIXED_TIMESTEP_value by code_simp

lemma is_float_zero: "is_float 0"
  by (simp add: is_float_def float_round_zero)

lemma float_round_minus_one: "float_round (- 1) = - 1"
  by code_simp

lemma fsub_self: "fsub a a = 0"
  by (simp add: fsub_def float_round_zero)

section \<open>Facts about the loop\<close>

lemma physics_steps_below:
  "dt < FIXED_TIMESTEP \<Longrightarrow> physics_steps upd dt g = Some (dt, g)"
  by (subst physics_steps.simps) simp

lemma physics_steps_step:
  "FIXED_TIMESTEP \<le> dt \<Longrightarrow>
   physics_steps upd dt g = physics_steps upd (fsub dt FIXED_TIMESTEP) (physics_step upd g)"
  by (subst physics_steps.simps) simp

text \<open>When the loop returns, what is left is less than one step, and not negative if
  the loop was entered with a time that is not negative.\<close>

lemma physics_steps_bounds:
  assumes "physics_steps upd dt g = Some y"
  shows "0 \<le> dt \<longrightarrow> 0 \<le> fst y \<and> fst y < FIXED_TIMESTEP"
proof (rule physics_steps.raw_induct
    [where P = "\<lambda>upd dt g y. 0 \<le> dt \<longrightarrow> 0 \<le> fst y \<and> fst y < FIXED_TIMESTEP", OF _ assms])
  fix f :: "entity_update \<Rightarrow> real \<Rightarrow> globals \<Rightarrow> (real \<times> globals) option"
  fix upd dt g y
  assume IH: "\<And>a b c r. f a b c = Some r \<Longrightarrow> 0 \<le> b \<longrightarrow> 0 \<le> fst r \<and> fst r < FIXED_TIMESTEP"
    and body: "(if FIXED_TIMESTEP \<le> dt
                then f upd (fsub dt FIXED_TIMESTEP) (physics_step upd g)
                else Some (dt, g)) = Some y"
  show "0 \<le> dt \<longrightarrow> 0 \<le> fst y \<and> fst y < FIXED_TIMESTEP"
  proof (cases "FIXED_TIMESTEP \<le> dt")
    case True
    then have "0 \<le> fsub dt FIXED_TIMESTEP"
      by (simp add: fsub_def float_round_nonneg)
    moreover from True body
    have "f upd (fsub dt FIXED_TIMESTEP) (physics_step upd g) = Some y" by simp
    ultimately show ?thesis using IH by blast
  next
    case False
    with body show ?thesis by auto
  qed
qed

text \<open>
  The loop need not return. At \<open>2\<^sup>2\<^sup>0\<close> seconds a \<^verbatim>\<open>float\<close> is a multiple of
  \<open>1 / 8\<close>, so subtracting \<^verbatim>\<open>FIXED_TIMESTEP\<close> rounds back to the same value and the
  condition of line 316 stays true.
\<close>

lemma fsub_stall: "fsub 1048576 FIXED_TIMESTEP = 1048576"
  by code_simp

lemma step_le_stall: "FIXED_TIMESTEP \<le> 1048576"
  by (simp add: FIXED_TIMESTEP_value)

lemma physics_steps_returns_not_stalled:
  assumes "physics_steps upd dt g = Some y"
  shows "dt \<noteq> 1048576"
proof (rule physics_steps.raw_induct [where P = "\<lambda>upd dt g y. dt \<noteq> 1048576", OF _ assms])
  fix f :: "entity_update \<Rightarrow> real \<Rightarrow> globals \<Rightarrow> (real \<times> globals) option"
  fix upd dt g y
  assume IH: "\<And>a b c r. f a b c = Some r \<Longrightarrow> b \<noteq> 1048576"
    and body: "(if FIXED_TIMESTEP \<le> dt
                then f upd (fsub dt FIXED_TIMESTEP) (physics_step upd g)
                else Some (dt, g)) = Some y"
  show "dt \<noteq> 1048576"
  proof
    assume dt: "dt = 1048576"
    with body step_le_stall
    have "f upd (fsub 1048576 FIXED_TIMESTEP) (physics_step upd g) = Some y"
      by simp
    then have "f upd 1048576 (physics_step upd g) = Some y"
      by (simp only: fsub_stall)
    from IH [OF this] show False by simp
  qed
qed

lemma physics_steps_stall: "physics_steps upd 1048576 g = None"
  using physics_steps_returns_not_stalled [of upd "1048576" g]
  by (cases "physics_steps upd 1048576 g") auto

lemma is_float_stall: "is_float 1048576"
  by code_simp

lemma game_loop_stall:
  assumes "g_time_accumulator g = 0"
  shows "game_loop upd 1048576 g = None"
proof -
  have "fadd 1048576 0 = 1048576"
    using is_float_stall by (simp add: fadd_def is_float_def)
  with assms step_le_stall show ?thesis
    by (simp add: game_loop_def physics_steps_stall)
qed

lemma game_loop_one_step:
  assumes "fadd delta_time (g_time_accumulator g) = FIXED_TIMESTEP"
  shows "game_loop upd delta_time g = Some ((physics_step upd g)\<lparr>g_time_accumulator := 0\<rparr>)"
proof -
  have "physics_steps upd FIXED_TIMESTEP g = Some (0, physics_step upd g)"
    using FIXED_TIMESTEP_pos
    by (simp add: physics_steps_step fsub_self physics_steps_below)
  with assms show ?thesis
    by (simp add: game_loop_def)
qed

lemma g_time_accumulator_example: "g_time_accumulator example_globals = 0"
  by (simp add: example_globals_def)

lemma fadd_example: "fadd FIXED_TIMESTEP (g_time_accumulator example_globals) = FIXED_TIMESTEP"
  using is_float_FIXED_TIMESTEP by (simp add: g_time_accumulator_example fadd_def is_float_def)

text \<open>The first overlap decides, and the example lander after one step.\<close>

lemma PLATFORM_COUNT_ge_2: "2 \<le> PLATFORM_COUNT"
  by (simp add: PLATFORM_COUNT_def)

lemma find_first_of_two:
  assumes "P d" and "2 \<le> n"
  shows "find P (take n (d # w # rest)) = Some d"
proof -
  from assms(2) obtain m where "n = Suc m" by (cases n) auto
  with assms(1) show ?thesis by simp
qed


lemma example_overlaps:
  "check_collision (fall FIXED_TIMESTEP lander) rock"
  "check_collision (fall FIXED_TIMESTEP lander) stone"
  by (simp_all add: check_collision_def fall_def lander_def rock_def stone_def zero_Entity_def
      FIXED_TIMESTEP_value)

lemma example_first_step:
  "Entity_update fall lander FIXED_TIMESTEP [rock, stone] PLATFORM_COUNT False False
   = (lander\<lparr>m_position := vec3 0 (3 - FIXED_TIMESTEP) 0\<rparr>, False, True)"
proof -
  have moved: "fall FIXED_TIMESTEP lander = lander\<lparr>m_position := vec3 0 (3 - FIXED_TIMESTEP) 0\<rparr>"
    by (simp add: fall_def lander_def)
  have types: "m_entity_type lander = PLAYER" "m_entity_type rock = DEATH_PLATFORM"
    by (simp_all add: lander_def rock_def zero_Entity_def)
  have "find (check_collision (fall FIXED_TIMESTEP lander)) (take PLATFORM_COUNT [rock, stone])
        = Some rock"
    using example_overlaps(1) PLATFORM_COUNT_ge_2 by (rule find_first_of_two)
  then have "Entity_update fall lander FIXED_TIMESTEP [rock, stone] PLATFORM_COUNT False False
             = (fall FIXED_TIMESTEP lander, False, True)"
    by (simp add: Entity_update_def Let_def types)
  then show ?thesis by (simp only: moved)
qed

section \<open>The accumulator at the boundaries\<close>

text \<open>
  C4. If the accumulated time on entering \<^verbatim>\<open>game_loop\<close>, the accumulator plus the
  frame's delta, is exactly \<^verbatim>\<open>FIXED_TIMESTEP\<close>, then exactly one physics step runs and
  \<^verbatim>\<open>g_time_accumulator\<close> is zero afterwards. The sum is the one the code computes in
  line 306, or the exact sum, which that one then equals. The state returned is the
  state on entry with the player and the two flags as one call of \<^verbatim>\<open>Entity::update\<close>
  with \<^verbatim>\<open>FIXED_TIMESTEP\<close>, the platforms and \<^verbatim>\<open>PLATFORM_COUNT\<close> leaves them, and with
  the accumulator zero.
\<close>

theorem game_loop_exactly_one_step:
  assumes "delta_time + g_time_accumulator g = FIXED_TIMESTEP
           \<or> fadd delta_time (g_time_accumulator g) = FIXED_TIMESTEP"
  shows "game_loop upd delta_time g
         = (case upd (player (g_game_state g)) FIXED_TIMESTEP (platforms (g_game_state g))
                  PLATFORM_COUNT (g_win g) (g_loss g) of
              (p, w, l) \<Rightarrow>
                Some (g\<lparr>g_game_state := (g_game_state g)\<lparr>player := p\<rparr>, g_win := w, g_loss := l,
                        g_time_accumulator := 0\<rparr>))"
proof -
  from assms have "fadd delta_time (g_time_accumulator g) = FIXED_TIMESTEP"
    using is_float_FIXED_TIMESTEP by (auto simp: fadd_def is_float_def)
  then have "game_loop upd delta_time g = Some ((physics_step upd g)\<lparr>g_time_accumulator := 0\<rparr>)"
    by (rule game_loop_one_step)
  then show ?thesis
    by (simp add: physics_step_def split: prod.splits)
qed

theorem game_loop_exactly_one_step_witness:
  "(FIXED_TIMESTEP + g_time_accumulator example_globals = FIXED_TIMESTEP
    \<or> fadd FIXED_TIMESTEP (g_time_accumulator example_globals) = FIXED_TIMESTEP)
   \<and> game_loop (Entity_update fall) FIXED_TIMESTEP example_globals
       = Some \<lparr>g_game_state =
                 \<lparr>player = lander\<lparr>m_position := vec3 0 (3 - FIXED_TIMESTEP) 0\<rparr>,
                  platforms = [rock, stone]\<rparr>,
               g_game_is_running = True, g_win = False, g_loss = True,
               g_previous_ticks = 0, g_time_accumulator = 0, g_text_texture_id = 0\<rparr>"
  using game_loop_exactly_one_step [of FIXED_TIMESTEP example_globals "Entity_update fall"]
    example_first_step
  by (simp add: example_globals_def)

text \<open>
  C5. A call of \<^verbatim>\<open>game_loop\<close> with a frame delta of zero, when the carried accumulator
  (a \<^verbatim>\<open>float\<close>) is below \<^verbatim>\<open>FIXED_TIMESTEP\<close>, performs no physics step and leaves the
  player and the accumulator unchanged: the whole state is returned as it was.
\<close>

theorem game_loop_zero_delta:
  assumes "is_float (g_time_accumulator g)" and "g_time_accumulator g < FIXED_TIMESTEP"
  shows "game_loop upd 0 g = Some g"
  using assms by (simp add: game_loop_def fadd_def is_float_def)

theorem game_loop_zero_delta_witness:
  "is_float (g_time_accumulator example_globals)
   \<and> g_time_accumulator example_globals < FIXED_TIMESTEP
   \<and> game_loop (Entity_update fall) 0 example_globals = Some example_globals"
  using game_loop_zero_delta [of example_globals "Entity_update fall"]
  by (simp add: g_time_accumulator_example is_float_zero FIXED_TIMESTEP_pos)

text \<open>
  C9, as stated: after a call of \<^verbatim>\<open>game_loop\<close> with a frame delta that is not negative
  and an accumulator below \<^verbatim>\<open>FIXED_TIMESTEP\<close> on entry, the accumulator is at least
  zero and below \<^verbatim>\<open>FIXED_TIMESTEP\<close>. It fails for an accumulator that is negative on
  entry: with a delta of zero the call stores \<open>-1\<close> back.
\<close>

theorem game_loop_negative_accumulator:
  "(0::real) \<le> 0 \<and> is_float (- 1)
   \<and> g_time_accumulator (example_globals\<lparr>g_time_accumulator := - 1\<rparr>) < FIXED_TIMESTEP
   \<and> game_loop (Entity_update fall) 0 (example_globals\<lparr>g_time_accumulator := - 1\<rparr>)
       = Some (example_globals\<lparr>g_time_accumulator := - 1\<rparr>)
   \<and> \<not> 0 \<le> g_time_accumulator (example_globals\<lparr>g_time_accumulator := - 1\<rparr>)"
  using FIXED_TIMESTEP_pos
  by (simp add: game_loop_def fadd_def is_float_def float_round_minus_one)

text \<open>
  C9, amended: after a call of \<^verbatim>\<open>game_loop\<close> returns, given a frame delta that is not
  negative and an accumulator that was at least zero and below \<^verbatim>\<open>FIXED_TIMESTEP\<close> on
  entry, the accumulator is again at least zero and below \<^verbatim>\<open>FIXED_TIMESTEP\<close>.
\<close>

theorem game_loop_accumulator_invariant:
  assumes "0 \<le> delta_time"
    and "0 \<le> g_time_accumulator g" and "g_time_accumulator g < FIXED_TIMESTEP"
    and "game_loop upd delta_time g = Some g'"
  shows "0 \<le> g_time_accumulator g' \<and> g_time_accumulator g' < FIXED_TIMESTEP"
proof -
  let ?dt = "fadd delta_time (g_time_accumulator g)"
  have nonneg: "0 \<le> ?dt"
    using assms(1,2) by (simp add: fadd_def float_round_nonneg)
  show ?thesis
  proof (cases "?dt < FIXED_TIMESTEP")
    case True
    with assms(4) nonneg show ?thesis
      by (auto simp: game_loop_def)
  next
    case False
    with assms(4) obtain r where r: "physics_steps upd ?dt g = Some r"
      and g': "g' = (snd r)\<lparr>g_time_accumulator := fst r\<rparr>"
      by (auto simp: game_loop_def Let_def split: option.splits)
    from physics_steps_bounds [OF r] nonneg g' show ?thesis by simp
  qed
qed

theorem game_loop_accumulator_invariant_witness:
  "(0::real) \<le> FIXED_TIMESTEP
   \<and> 0 \<le> g_time_accumulator example_globals
   \<and> g_time_accumulator example_globals < FIXED_TIMESTEP
   \<and> game_loop (Entity_update fall) FIXED_TIMESTEP example_globals
       = Some ((physics_step (Entity_update fall) example_globals)\<lparr>g_time_accumulator := 0\<rparr>)
   \<and> 0 \<le> g_time_accumulator
         ((physics_step (Entity_update fall) example_globals)\<lparr>g_time_accumulator := 0\<rparr>)
   \<and> g_time_accumulator
         ((physics_step (Entity_update fall) example_globals)\<lparr>g_time_accumulator := 0\<rparr>)
       < FIXED_TIMESTEP"
proof -
  have run: "game_loop (Entity_update fall) FIXED_TIMESTEP example_globals
       = Some ((physics_step (Entity_update fall) example_globals)\<lparr>g_time_accumulator := 0\<rparr>)"
    by (rule game_loop_one_step) (rule fadd_example)
  from game_loop_accumulator_invariant [OF _ _ _ run] FIXED_TIMESTEP_pos run
  show ?thesis by (simp add: g_time_accumulator_example)
qed

section \<open>Input\<close>

lemma handle_event_cases:
  "handle_event e g = g \<or> handle_event e g = g\<lparr>g_game_is_running := False\<rparr>"
  by (cases "(e, g)" rule: handle_event.cases) simp_all

lemma poll_events_cases:
  "poll_events events g = g \<or> poll_events events g = g\<lparr>g_game_is_running := False\<rparr>"
proof (induction events arbitrary: g)
  case Nil
  then show ?case by (simp add: poll_events_def)
next
  case (Cons e events)
  have step: "poll_events (e # events) g = poll_events events (handle_event e g)"
    by (simp add: poll_events_def)
  from handle_event_cases [of e g] show ?case
  proof
    assume "handle_event e g = g"
    with Cons.IH [of g] step show ?thesis by simp
  next
    assume "handle_event e g = g\<lparr>g_game_is_running := False\<rparr>"
    with Cons.IH [of "g\<lparr>g_game_is_running := False\<rparr>"] step show ?thesis by auto
  qed
qed

lemma poll_events_fields:
  "g_game_state (poll_events events g) = g_game_state g"
  "g_win (poll_events events g) = g_win g"
  "g_loss (poll_events events g) = g_loss g"
  "g_previous_ticks (poll_events events g) = g_previous_ticks g"
  "g_time_accumulator (poll_events events g) = g_time_accumulator g"
  "g_text_texture_id (poll_events events g) = g_text_texture_id g"
  using poll_events_cases [of events g] by auto

lemma on_player_fields:
  "player (g_game_state (on_player f g)) = f (player (g_game_state g))"
  "platforms (g_game_state (on_player f g)) = platforms (g_game_state g)"
  "g_win (on_player f g) = g_win g"
  "g_loss (on_player f g) = g_loss g"
  "g_game_is_running (on_player f g) = g_game_is_running g"
  "g_previous_ticks (on_player f g) = g_previous_ticks g"
  "g_time_accumulator (on_player f g) = g_time_accumulator g"
  "g_text_texture_id (on_player f g) = g_text_texture_id g"
  by (simp_all add: on_player_def)

lemma glm_length_zero: "glm_length (vec3 0 0 0) = 0"
  by (simp add: glm_length_def)

text \<open>The player after process_input, in terms of the key state.\<close>

lemma process_input_player_up:
  assumes "key_state SDL_SCANCODE_UP \<or> key_state SDL_SCANCODE_W"
  shows "player (g_game_state (process_input ml mr events key_state g))
         = (player (g_game_state g))\<lparr>m_movement := vec3 0 0 0, m_booster_active := True\<rparr>"
  using assms
  by (simp add: process_input_def normalise_movement_def apply_key_state_def reset_intent_def
      on_player_fields poll_events_fields glm_length_zero)

lemma process_input_player_none:
  assumes "\<not> key_state SDL_SCANCODE_UP" "\<not> key_state SDL_SCANCODE_W"
    "\<not> key_state SDL_SCANCODE_LEFT" "\<not> key_state SDL_SCANCODE_A"
    "\<not> key_state SDL_SCANCODE_RIGHT" "\<not> key_state SDL_SCANCODE_D"
  shows "player (g_game_state (process_input ml mr events key_state g))
         = (player (g_game_state g))\<lparr>m_movement := vec3 0 0 0, m_booster_active := False\<rparr>"
  using assms
  by (simp add: process_input_def normalise_movement_def apply_key_state_def reset_intent_def
      on_player_fields poll_events_fields glm_length_zero)

lemma reset_intent_absorbs:
  "reset_intent (on_player (\<lambda>p. p\<lparr>m_movement := v, m_booster_active := b\<rparr>) g) = reset_intent g"
  by (simp add: reset_intent_def on_player_def)

lemma process_input_fields:
  "platforms (g_game_state (process_input ml mr events key_state g)) = platforms (g_game_state g)"
  "g_win (process_input ml mr events key_state g) = g_win g"
  "g_loss (process_input ml mr events key_state g) = g_loss g"
  "g_previous_ticks (process_input ml mr events key_state g) = g_previous_ticks g"
  "g_time_accumulator (process_input ml mr events key_state g) = g_time_accumulator g"
  by (simp_all add: process_input_def normalise_movement_def apply_key_state_def reset_intent_def
      on_player_fields poll_events_fields)


text \<open>
  C6. At the start of every \<^verbatim>\<open>process_input\<close> call the movement intent is reset to the
  zero vector and the booster flag to false: whatever the two members held before
  the call has no influence on the result, and with no key held they are zero and
  false afterwards. If the up or the W key is held, the booster flag is set and no
  lateral movement is applied, whatever the state of the left and right keys and
  whatever \<^verbatim>\<open>move_left\<close> and \<^verbatim>\<open>move_right\<close> do: the player is the player before the
  call with zero movement and the booster active.
\<close>

theorem process_input_thrust_excludes_steering:
  "process_input ml mr events key_state
       (on_player (\<lambda>p. p\<lparr>m_movement := v, m_booster_active := b\<rparr>) g)
     = process_input ml mr events key_state g
   \<and> (\<not> key_state SDL_SCANCODE_UP \<and> \<not> key_state SDL_SCANCODE_W
        \<and> \<not> key_state SDL_SCANCODE_LEFT \<and> \<not> key_state SDL_SCANCODE_A
        \<and> \<not> key_state SDL_SCANCODE_RIGHT \<and> \<not> key_state SDL_SCANCODE_D
      \<longrightarrow> player (g_game_state (process_input ml mr events key_state g))
           = (player (g_game_state g))\<lparr>m_movement := vec3 0 0 0, m_booster_active := False\<rparr>)
   \<and> (key_state SDL_SCANCODE_UP \<or> key_state SDL_SCANCODE_W
      \<longrightarrow> player (g_game_state (process_input ml mr events key_state g))
           = (player (g_game_state g))\<lparr>m_movement := vec3 0 0 0, m_booster_active := True\<rparr>)"
  using process_input_player_up [of key_state ml mr events g]
    process_input_player_none [of key_state ml mr events g]
  by (simp add: process_input_def reset_intent_absorbs)


theorem process_input_thrust_excludes_steering_witness:
  "(up_and_left SDL_SCANCODE_UP \<or> up_and_left SDL_SCANCODE_W)
   \<and> up_and_left SDL_SCANCODE_LEFT
   \<and> player (g_game_state
        (process_input steer_left steer_right [SDL_OTHEREVENT] up_and_left example_globals))
       = lander\<lparr>m_movement := vec3 0 0 0, m_booster_active := True\<rparr>
   \<and> \<not> no_keys SDL_SCANCODE_UP \<and> \<not> no_keys SDL_SCANCODE_W
   \<and> \<not> no_keys SDL_SCANCODE_LEFT \<and> \<not> no_keys SDL_SCANCODE_A
   \<and> \<not> no_keys SDL_SCANCODE_RIGHT \<and> \<not> no_keys SDL_SCANCODE_D
   \<and> player (g_game_state
        (process_input steer_left steer_right [SDL_OTHEREVENT] no_keys
           (on_player (\<lambda>p. p\<lparr>m_movement := vec3 1 0 0, m_booster_active := True\<rparr>)
              example_globals)))
       = lander\<lparr>m_movement := vec3 0 0 0, m_booster_active := False\<rparr>"
  using process_input_thrust_excludes_steering
      [where ml = steer_left and mr = steer_right and events = "[SDL_OTHEREVENT]"
         and key_state = up_and_left and v = "vec3 1 0 0" and b = True and g = example_globals]
    process_input_thrust_excludes_steering
      [where ml = steer_left and mr = steer_right and events = "[SDL_OTHEREVENT]"
         and key_state = no_keys and v = "vec3 1 0 0" and b = True and g = example_globals]
  by (simp add: up_and_left_def no_keys_def example_globals_def)

text \<open>
  Whether the test of line 296 holds after the key chain depends on what
  \<^verbatim>\<open>Entity::move_left\<close> sets: false for a lateral component of \<open>-1\<close>, true for
  \<open>-2\<close>.
\<close>

lemma normalisation_depends_on_move_left:
  "\<not> 1 < glm_length (m_movement (player (g_game_state
          (apply_key_state steer_left steer_right only_left
             (poll_events events (reset_intent g))))))"
  "1 < glm_length (m_movement (player (g_game_state
        (apply_key_state steer_far_left steer_right only_left
           (poll_events events (reset_intent g))))))"
  by (simp_all add: apply_key_state_def reset_intent_def on_player_fields poll_events_fields
      steer_left_def steer_far_left_def only_left_def glm_length_def)

section \<open>The terminal flags\<close>

lemma update_terminal:
  assumes "g_win g \<or> g_loss g"
  shows "update upd t g
         = Some (g\<lparr>g_previous_ticks :=
                     fdiv (float_round (real (unat t))) MILLISECONDS_IN_SECOND\<rparr>)"
  using assms by (auto simp: update_def Let_def)

lemma main_loop_terminal:
  assumes "g_win g \<or> g_loss g"
  shows "\<exists>g'. main_loop upd ml mr inputs g = Some g'
           \<and> g_win g' = g_win g \<and> g_loss g' = g_loss g
           \<and> platforms (g_game_state g') = platforms (g_game_state g)
           \<and> g_time_accumulator g' = g_time_accumulator g"
  using assms
proof (induction inputs arbitrary: g)
  case Nil
  then show ?case by simp
next
  case (Cons i inputs)
  show ?case
  proof (cases "g_game_is_running g")
    case False
    then show ?thesis by simp
  next
    case True
    let ?p = "process_input ml mr (pending_events i) (keyboard i) g"
    let ?u = "?p\<lparr>g_previous_ticks :=
                  fdiv (float_round (real (unat (tick_count i)))) MILLISECONDS_IN_SECOND\<rparr>"
    from Cons.prems have flag: "g_win ?p \<or> g_loss ?p"
      by (simp add: process_input_fields)
    then have upd: "update upd (tick_count i) ?p = Some ?u"
      by (rule update_terminal)
    from flag have "g_win ?u \<or> g_loss ?u" by simp
    from Cons.IH [OF this] obtain g' where
      "main_loop upd ml mr inputs ?u = Some g'"
      "g_win g' = g_win ?u" "g_loss g' = g_loss ?u"
      "platforms (g_game_state g') = platforms (g_game_state ?u)"
      "g_time_accumulator g' = g_time_accumulator ?u"
      by blast
    with True upd show ?thesis
      by (simp add: process_input_fields)
  qed
qed


text \<open>
  C2. Once \<^verbatim>\<open>g_win\<close> or \<^verbatim>\<open>g_loss\<close> is true, a call of \<^verbatim>\<open>update\<close> performs no physics
  step and leaves the player, the platforms and both flags unchanged: it returns the
  state with only \<^verbatim>\<open>g_previous_ticks\<close> written. Over any further frames of the driver
  loop both flags keep their values, so every later call of \<^verbatim>\<open>update\<close> finds a flag
  set and neither flag is cleared.
\<close>

theorem terminal_freeze:
  assumes "g_win g \<or> g_loss g"
  shows "update upd t g
           = Some (g\<lparr>g_previous_ticks :=
                       fdiv (float_round (real (unat t))) MILLISECONDS_IN_SECOND\<rparr>)
         \<and> (\<exists>g'. main_loop upd ml mr inputs g = Some g'
               \<and> g_win g' = g_win g \<and> g_loss g' = g_loss g
               \<and> platforms (g_game_state g') = platforms (g_game_state g)
               \<and> g_time_accumulator g' = g_time_accumulator g)"
  using update_terminal [OF assms] main_loop_terminal [OF assms] by blast

theorem terminal_freeze_witness:
  "(g_win (example_globals\<lparr>g_loss := True\<rparr>) \<or> g_loss (example_globals\<lparr>g_loss := True\<rparr>))
   \<and> update (Entity_update fall) 17 (example_globals\<lparr>g_loss := True\<rparr>)
       = Some (example_globals\<lparr>g_loss := True,
            g_previous_ticks := fdiv (float_round (real (unat (17 :: 32 word))))
                                  MILLISECONDS_IN_SECOND\<rparr>)
   \<and> (\<exists>g'. main_loop (Entity_update fall) steer_left steer_right [frame_17, frame_17]
               (example_globals\<lparr>g_loss := True\<rparr>) = Some g'
          \<and> \<not> g_win g' \<and> g_loss g')"
  using terminal_freeze [of "example_globals\<lparr>g_loss := True\<rparr>" "Entity_update fall" 17
      steer_left steer_right "[frame_17, frame_17]"]
  by (auto simp: example_globals_def)

section \<open>Collisions\<close>

text \<open>
  C3. When, within one fixed physics step, the box of the player overlaps both a
  DEATH_PLATFORM at index 0 and a WIN_PLATFORM at index 1 of the platform array, the
  first overlapping platform in array order determines the outcome: the step of
  line 319 sets \<^verbatim>\<open>g_loss\<close> and leaves \<^verbatim>\<open>g_win\<close> false.
\<close>

theorem first_overlapping_platform_decides:
  assumes "m_entity_type (player (g_game_state g)) = PLAYER"
    and "platforms (g_game_state g) = d # w # rest"
    and "m_entity_type d = DEATH_PLATFORM" and "m_entity_type w = WIN_PLATFORM"
    and "check_collision (integrate FIXED_TIMESTEP (player (g_game_state g))) d"
    and "check_collision (integrate FIXED_TIMESTEP (player (g_game_state g))) w"
    and "\<not> g_win g"
  shows "g_loss (physics_step (Entity_update integrate) g)
         \<and> \<not> g_win (physics_step (Entity_update integrate) g)"
proof -
  have "find (check_collision (integrate FIXED_TIMESTEP (player (g_game_state g))))
          (take PLATFORM_COUNT (d # w # rest)) = Some d"
    using assms(5) PLATFORM_COUNT_ge_2 by (rule find_first_of_two)
  with assms(1,2,3,7) show ?thesis
    by (simp add: physics_step_def Entity_update_def Let_def)
qed

theorem first_overlapping_platform_decides_witness:
  "m_entity_type (player (g_game_state example_globals)) = PLAYER
   \<and> platforms (g_game_state example_globals) = rock # stone # []
   \<and> m_entity_type rock = DEATH_PLATFORM \<and> m_entity_type stone = WIN_PLATFORM
   \<and> check_collision (fall FIXED_TIMESTEP (player (g_game_state example_globals))) rock
   \<and> check_collision (fall FIXED_TIMESTEP (player (g_game_state example_globals))) stone
   \<and> \<not> g_win example_globals
   \<and> g_loss (physics_step (Entity_update fall) example_globals)
   \<and> \<not> g_win (physics_step (Entity_update fall) example_globals)"
proof -
  have pl: "player (g_game_state example_globals) = lander"
    and ps: "platforms (g_game_state example_globals) = rock # stone # []"
    and nw: "\<not> g_win example_globals"
    by (simp_all add: example_globals_def)
  have ty: "m_entity_type lander = PLAYER" "m_entity_type rock = DEATH_PLATFORM"
    "m_entity_type stone = WIN_PLATFORM"
    by (simp_all add: lander_def rock_def stone_def zero_Entity_def)
  from first_overlapping_platform_decides [of example_globals rock stone "[]" fall]
    pl ps nw ty example_overlaps
  show ?thesis by simp
qed


section \<open>Texture loading\<close>

text \<open>
  For a path whose image cannot be loaded or decoded, \<^verbatim>\<open>load_texture\<close> ends in the
  assertion: it returns no texture name and creates no texture. Its message is on the
  console afterwards if the standard output is a terminal, and is lost otherwise.
\<close>

lemma load_texture_without_image:
  assumes "stbi_load filepath = None"
  shows "fst (load_texture stbi_load filepath w) = Inl Assertion_failure"
    and "textures (snd (load_texture stbi_load filepath w)) = textures w"
    and "console (snd (load_texture stbi_load filepath w))
         = (if stdout_is_terminal w
            then console w @ stdout_buffer w
                 @ ''Unable to load image. Make sure the path is correct.'' @ [CHR 0x0A]
            else console w)"
  using assms by (simp_all add: load_texture_def LOG_def assert_false_def Let_def)

lemma load_texture_on_terminal:
  "load_texture no_assets ''assets/ship.png'' empty_outside
   = (Inl Assertion_failure,
      empty_outside\<lparr>console :=
        ''Unable to load image. Make sure the path is correct.'' @ [CHR 0x0A]\<rparr>)"
  by (simp add: load_texture_def LOG_def assert_false_def no_assets_def empty_outside_def)

text \<open>
  C8. For every file path whose image cannot be loaded or decoded, \<^verbatim>\<open>load_texture\<close>
  logs a message and then aborts the process in an assertion, with no retry, no
  fallback texture and no value returned. The code aborts, but the message it has
  written to \<^verbatim>\<open>std::cout\<close> is not flushed before the abort: with the standard output
  redirected and the sprite sheet missing, the call ends in the assertion and
  nothing has been written.
\<close>

theorem load_texture_message_lost:
  "no_assets ''assets/ship.png'' = None
   \<and> load_texture no_assets ''assets/ship.png'' redirected_outside
       = (Inl Assertion_failure, redirected_outside)
   \<and> console redirected_outside = []"
  by (simp add: load_texture_def LOG_def assert_false_def no_assets_def redirected_outside_def)

section \<open>The platforms\<close>

lemma load_texture_if_members:
  assumes "load_texture_if c stbi_load filepath e w = (Inr e', w')"
  shows "m_position e' = m_position e \<and> m_entity_type e' = m_entity_type e"
  using assms
  by (auto simp: load_texture_if_def split: if_splits prod.splits sum.splits)

lemma create_platforms_result:
  assumes "platform_update_keeps upd"
    and "create_platforms upd stbi_load rng is (ps, win, loss) w = (Inr (ps', win', loss'), w')"
    and "distinct is" and "\<forall>i \<in> set is. i < length ps"
  shows "length ps' = length ps
         \<and> (\<forall>i \<in> set is. created rng i (ps' ! i))
         \<and> (\<forall>j. j \<notin> set is \<longrightarrow> ps' ! j = ps ! j)"
  using assms(2-)
proof (induction "is" arbitrary: ps win loss w)
  case Nil
  then show ?case by simp
next
  case (Cons i "is")
  let ?ty = "if fst (rng i) \<noteq> 0 then WIN_PLATFORM else DEATH_PLATFORM"
  let ?e0 = "(ps ! i)\<lparr>m_position := vec3 (fsub (float_round (real i)) 4)
                (float_round (real_of_int (snd (rng i)))) 0, m_entity_type := ?ty\<rparr>"
  from Cons.prems(1) obtain e1 w1 e2 w2 e3 win3 loss3 where
    l1: "load_texture_if (?ty = WIN_PLATFORM) stbi_load WIN_PLATFORM_FILEPATH ?e0 w = (Inr e1, w1)"
    and l2: "load_texture_if (?ty = DEATH_PLATFORM) stbi_load DEATH_PLATFORM_FILEPATH e1 w1
             = (Inr e2, w2)"
    and u: "upd e2 0 [] 0 win loss = (e3, win3, loss3)"
    and rest: "create_platforms upd stbi_load rng is (ps[i := e3], win3, loss3) w2
               = (Inr (ps', win', loss'), w')"
    by (auto simp: Let_def split: prod.splits sum.splits)
  have e2: "m_position e2 = m_position ?e0" "m_entity_type e2 = ?ty"
    using load_texture_if_members [OF l1] load_texture_if_members [OF l2] by simp_all
  then have "m_entity_type e2 \<noteq> PLAYER" by simp
  with assms(1) have "m_position (fst (upd e2 0 [] 0 win loss)) = m_position e2
      \<and> m_entity_type (fst (upd e2 0 [] 0 win loss)) = m_entity_type e2"
    unfolding platform_update_keeps_def by blast
  with u e2 have e3: "created rng i e3"
    by (simp add: created_def)
  from Cons.prems(2,3) have "distinct is" "\<forall>k \<in> set is. k < length (ps[i := e3])"
    by simp_all
  from Cons.IH [OF rest this] have
    len: "length ps' = length ps"
    and made: "\<forall>k \<in> set is. created rng k (ps' ! k)"
    and kept: "\<forall>j. j \<notin> set is \<longrightarrow> ps' ! j = ps[i := e3] ! j"
    by simp_all
  from Cons.prems(2,3) have "i \<notin> set is" "i < length ps" by simp_all
  with kept e3 have "created rng i (ps' ! i)" by simp
  moreover from kept have "\<forall>j. j \<notin> set (i # is) \<longrightarrow> ps' ! j = ps ! j" by simp
  ultimately show ?case using len made by simp
qed


lemma initialise_platforms:
  assumes "platform_update_keeps upd"
    and "initialise upd new_Entity stbi_load rng w = (Inr g, w')"
  shows "length (platforms (g_game_state g)) = PLATFORM_COUNT
         \<and> (\<forall>i < PLATFORM_COUNT. created rng i (platforms (g_game_state g) ! i))"
proof -
  from assms(2) obtain ps win loss w1 w2 where
    made: "create_platforms upd stbi_load rng [0..<PLATFORM_COUNT]
             (replicate PLATFORM_COUNT new_Entity, False, False) w1 = (Inr (ps, win, loss), w2)"
    and g: "platforms (g_game_state g) = ps"
    by (auto simp: initialise_def Let_def split: prod.splits sum.splits)
  from create_platforms_result [OF assms(1) made] g show ?thesis
    by simp
qed

lemma physics_step_platforms:
  "platforms (g_game_state (physics_step upd g)) = platforms (g_game_state g)"
  by (simp add: physics_step_def split: prod.splits)

lemma physics_steps_platforms:
  assumes "physics_steps upd dt g = Some y"
  shows "platforms (g_game_state (snd y)) = platforms (g_game_state g)"
proof (rule physics_steps.raw_induct
    [where P = "\<lambda>upd dt g y. platforms (g_game_state (snd y)) = platforms (g_game_state g)",
      OF _ assms])
  fix f :: "entity_update \<Rightarrow> real \<Rightarrow> globals \<Rightarrow> (real \<times> globals) option"
  fix upd dt g y
  assume IH: "\<And>a b c r. f a b c = Some r
                \<Longrightarrow> platforms (g_game_state (snd r)) = platforms (g_game_state c)"
    and body: "(if FIXED_TIMESTEP \<le> dt
                then f upd (fsub dt FIXED_TIMESTEP) (physics_step upd g)
                else Some (dt, g)) = Some y"
  show "platforms (g_game_state (snd y)) = platforms (g_game_state g)"
  proof (cases "FIXED_TIMESTEP \<le> dt")
    case True
    with body have "f upd (fsub dt FIXED_TIMESTEP) (physics_step upd g) = Some y" by simp
    from IH [OF this] show ?thesis by (simp add: physics_step_platforms)
  next
    case False
    with body show ?thesis by auto
  qed
qed

lemma game_loop_platforms:
  assumes "game_loop upd delta_time g = Some g'"
  shows "platforms (g_game_state g') = platforms (g_game_state g)"
proof (cases "fadd delta_time (g_time_accumulator g) < FIXED_TIMESTEP")
  case True
  with assms show ?thesis by (auto simp: game_loop_def)
next
  case False
  with assms obtain r where r: "physics_steps upd (fadd delta_time (g_time_accumulator g)) g = Some r"
    and g': "g' = (snd r)\<lparr>g_time_accumulator := fst r\<rparr>"
    by (auto simp: game_loop_def Let_def split: option.splits)
  from physics_steps_platforms [OF r] g' show ?thesis by simp
qed

lemma update_platforms:
  assumes "update upd t g = Some g'"
  shows "platforms (g_game_state g') = platforms (g_game_state g)"
proof (cases "g_win g \<or> g_loss g")
  case True
  with assms show ?thesis by (auto simp: update_def Let_def)
next
  case False
  with assms have "game_loop upd
      (fsub (fdiv (float_round (real (unat t))) MILLISECONDS_IN_SECOND) (g_previous_ticks g))
      (g\<lparr>g_previous_ticks := fdiv (float_round (real (unat t))) MILLISECONDS_IN_SECOND\<rparr>)
    = Some g'"
    by (simp add: update_def Let_def)
  from game_loop_platforms [OF this] show ?thesis by simp
qed

lemma main_loop_platforms:
  assumes "main_loop upd ml mr inputs g = Some g'"
  shows "platforms (g_game_state g') = platforms (g_game_state g)"
  using assms
proof (induction inputs arbitrary: g)
  case Nil
  then show ?case by simp
next
  case (Cons i inputs)
  show ?case
  proof (cases "g_game_is_running g")
    case False
    with Cons.prems show ?thesis by simp
  next
    case True
    with Cons.prems obtain g1 where
      u: "update upd (tick_count i)
            (process_input ml mr (pending_events i) (keyboard i) g) = Some g1"
      and rest: "main_loop upd ml mr inputs g1 = Some g'"
      by (auto split: option.splits)
    from Cons.IH [OF rest] update_platforms [OF u] show ?thesis
      by (simp add: process_input_fields)
  qed
qed

lemma Entity_update_platform:
  "m_entity_type e \<noteq> PLAYER \<Longrightarrow> Entity_update integrate e dt ps n win loss = (e, win, loss)"
  by (simp add: Entity_update_def)

lemma platform_update_keeps_Entity_update: "platform_update_keeps (Entity_update integrate)"
  by (simp add: platform_update_keeps_def Entity_update_platform)

lemma load_texture_if_succeeds:
  assumes "\<forall>filepath. stbi_load filepath \<noteq> None"
  shows "\<exists>e' w'. load_texture_if c stbi_load filepath e w = (Inr e', w')"
proof (cases "stbi_load filepath")
  case None
  with assms show ?thesis by blast
next
  case (Some img)
  then show ?thesis by (simp add: load_texture_if_def load_texture_def)
qed

lemma create_platforms_succeeds:
  assumes "\<forall>filepath. stbi_load filepath \<noteq> None"
  shows "\<exists>r w'. create_platforms upd stbi_load rng is s w = (Inr r, w')"
proof (induction "is" arbitrary: s w)
  case Nil
  show ?case by (intro exI) (rule create_platforms.simps(1))
next
  case (Cons i "is")
  obtain ps win loss where s: "s = (ps, win, loss)" by (rule prod_cases3)
  let ?ty = "if fst (rng i) \<noteq> 0 then WIN_PLATFORM else DEATH_PLATFORM"
  let ?e0 = "(ps ! i)\<lparr>m_position := vec3 (fsub (float_round (real i)) 4)
                (float_round (real_of_int (snd (rng i)))) 0, m_entity_type := ?ty\<rparr>"
  from load_texture_if_succeeds [OF assms] obtain e1 w1 where
    l1: "load_texture_if (?ty = WIN_PLATFORM) stbi_load WIN_PLATFORM_FILEPATH ?e0 w = (Inr e1, w1)"
    by blast
  from load_texture_if_succeeds [OF assms] obtain e2 w2 where
    l2: "load_texture_if (?ty = DEATH_PLATFORM) stbi_load DEATH_PLATFORM_FILEPATH e1 w1
         = (Inr e2, w2)"
    by blast
  obtain e3 win3 loss3 where u: "upd e2 0 [] 0 win loss = (e3, win3, loss3)"
    by (cases "upd e2 0 [] 0 win loss") auto
  from Cons.IH [of "(ps[i := e3], win3, loss3)" w2] l1 l2 u s show ?case
    by (simp add: Let_def)
qed

lemma initialise_succeeds:
  assumes "\<forall>filepath. stbi_load filepath \<noteq> None"
  shows "\<exists>g w'. initialise upd new_Entity stbi_load rng w = (Inr g, w')"
proof -
  let ?p = "new_Entity\<lparr>m_position := vec3 0 3 0, m_movement := vec3 0 0 0,
                m_acceleration := vec3 0 ACC_OF_GRAVITY 0, m_speed := 2\<rparr>"
  from load_texture_if_succeeds [OF assms] obtain p1 w1 where
    l1: "load_texture_if True stbi_load SPRITESHEET_FILEPATH ?p w = (Inr p1, w1)"
    by blast
  from create_platforms_succeeds [OF assms] obtain ps win loss w2 where
    c: "create_platforms upd stbi_load rng [0..<PLATFORM_COUNT]
          (replicate PLATFORM_COUNT new_Entity, False, False) w1 = (Inr (ps, win, loss), w2)"
    by (metis prod_cases3)
  have "\<exists>font w3. load_texture stbi_load FONT_SPRITE_FILEPATH w2 = (Inr font, w3)"
  proof (cases "stbi_load FONT_SPRITE_FILEPATH")
    case None
    with assms show ?thesis by blast
  next
    case (Some img)
    then show ?thesis by (simp add: load_texture_def)
  qed
  with l1 c show ?thesis
    by (auto simp: initialise_def Let_def)
qed

lemma initialise_globals:
  assumes "initialise upd new_Entity stbi_load rng w = (Inr g, w')"
  shows "g_game_is_running g \<and> g_previous_ticks g = 0 \<and> g_time_accumulator g = 0"
  using assms
  by (auto simp: initialise_def Let_def split: prod.splits sum.splits)

lemma ticks_17:
  "fdiv (float_round (real (unat (17 :: 32 word)))) MILLISECONDS_IN_SECOND = seventeen_ms"
  by code_simp

lemma delta_17: "fsub seventeen_ms 0 = seventeen_ms"
  by code_simp

lemma fadd_17: "fadd seventeen_ms 0 = seventeen_ms"
  by code_simp

lemma fsub_17: "fsub seventeen_ms FIXED_TIMESTEP = seventeen_ms_rest"
  by code_simp

lemma seventeen_ms_bounds:
  "FIXED_TIMESTEP \<le> seventeen_ms" "\<not> seventeen_ms < FIXED_TIMESTEP"
  "seventeen_ms_rest < FIXED_TIMESTEP"
  by (simp_all add: seventeen_ms_def seventeen_ms_rest_def FIXED_TIMESTEP_value)

lemma game_loop_17:
  assumes "g_time_accumulator g = 0"
  shows "game_loop upd seventeen_ms g
         = Some ((physics_step upd g)\<lparr>g_time_accumulator := seventeen_ms_rest\<rparr>)"
proof -
  have "physics_steps upd seventeen_ms g
        = physics_steps upd (fsub seventeen_ms FIXED_TIMESTEP) (physics_step upd g)"
    by (rule physics_steps_step) (rule seventeen_ms_bounds)
  also have "\<dots> = Some (seventeen_ms_rest, physics_step upd g)"
    unfolding fsub_17 by (rule physics_steps_below) (rule seventeen_ms_bounds)
  finally show ?thesis
    using assms seventeen_ms_bounds(2) by (simp add: game_loop_def fadd_17)
qed

lemma update_17:
  assumes "g_time_accumulator g = 0" and "g_previous_ticks g = 0"
  shows "\<exists>g'. update upd 17 g = Some g'"
proof (cases "g_win g \<or> g_loss g")
  case True
  then show ?thesis by (auto simp: update_def Let_def)
next
  case False
  have "update upd 17 g = game_loop upd seventeen_ms (g\<lparr>g_previous_ticks := seventeen_ms\<rparr>)"
    unfolding update_def Let_def ticks_17 assms(2) delta_17 using False by simp
  with assms(1) game_loop_17 [of "g\<lparr>g_previous_ticks := seventeen_ms\<rparr>" upd]
  show ?thesis by simp
qed

lemma main_loop_frame_17:
  assumes "g_time_accumulator g = 0" and "g_previous_ticks g = 0"
  shows "\<exists>g'. main_loop upd ml mr [frame_17] g = Some g'"
proof (cases "g_game_is_running g")
  case False
  then show ?thesis by simp
next
  case True
  let ?p = "process_input ml mr (pending_events frame_17) (keyboard frame_17) g"
  have t: "tick_count frame_17 = 17" by (simp add: frame_17_def)
  from assms have "g_time_accumulator ?p = 0" "g_previous_ticks ?p = 0"
    by (simp_all add: process_input_fields)
  from update_17 [OF this] obtain g' where "update upd 17 ?p = Some g'" by blast
  with True t show ?thesis by simp
qed

text \<open>
  C7. Exactly \<^verbatim>\<open>PLATFORM_COUNT\<close>, that is 9, platforms exist when \<^verbatim>\<open>initialise\<close> has
  completed; platform \<open>i\<close> has the type and the position that its two random draws
  gave it at creation; and after any number of frames of the driver loop the
  platform array is the one \<^verbatim>\<open>initialise\<close> left: no platform is modified, added or
  removed. \<^verbatim>\<open>Entity::update\<close> is a parameter, of which the creation uses what the
  spec says of a platform's own update.
\<close>

theorem platforms_created_once_and_fixed:
  assumes "platform_update_keeps upd"
    and "initialise upd new_Entity stbi_load rng w = (Inr g, w')"
    and "main_loop upd ml mr inputs g = Some g'"
  shows "PLATFORM_COUNT = 9
         \<and> length (platforms (g_game_state g)) = PLATFORM_COUNT
         \<and> (\<forall>i < PLATFORM_COUNT. created rng i (platforms (g_game_state g) ! i))
         \<and> platforms (g_game_state g') = platforms (g_game_state g)"
  using initialise_platforms [OF assms(1,2)] main_loop_platforms [OF assms(3)]
  by (simp add: PLATFORM_COUNT_def)

theorem platforms_created_once_and_fixed_witness:
  "platform_update_keeps (Entity_update fall)
   \<and> (\<exists>g w' g'.
        initialise (Entity_update fall) zero_Entity all_assets coin_and_height empty_outside
          = (Inr g, w')
        \<and> main_loop (Entity_update fall) steer_left steer_right [frame_17] g = Some g'
        \<and> length (platforms (g_game_state g')) = 9
        \<and> m_entity_type (platforms (g_game_state g') ! 0) = DEATH_PLATFORM
        \<and> m_entity_type (platforms (g_game_state g') ! 1) = WIN_PLATFORM)"
proof -
  have keeps: "platform_update_keeps (Entity_update fall)"
    by (rule platform_update_keeps_Entity_update)
  have "\<forall>filepath. all_assets filepath \<noteq> None"
    by (simp add: all_assets_def)
  from initialise_succeeds [OF this] obtain g w' where
    init: "initialise (Entity_update fall) zero_Entity all_assets coin_and_height empty_outside
           = (Inr g, w')"
    by blast
  from initialise_globals [OF init] main_loop_frame_17 obtain g' where
    run: "main_loop (Entity_update fall) steer_left steer_right [frame_17] g = Some g'"
    by blast
  from platforms_created_once_and_fixed [OF keeps init run]
  have "length (platforms (g_game_state g')) = 9"
    and "m_entity_type (platforms (g_game_state g') ! 0) = DEATH_PLATFORM"
    and "m_entity_type (platforms (g_game_state g') ! 1) = WIN_PLATFORM"
    by (simp_all add: created_def coin_and_height_def)
  with keeps init run show ?thesis by blast
qed

section \<open>Frame deltas and physics steps\<close>



text \<open>
  A call of \<^verbatim>\<open>game_loop\<close>, and a sequence of calls, returns exactly when the frames run
  some numbers of steps, and then the state is the state on entry after that many
  physics steps, with what the subtractions left in the accumulator.
\<close>

lemma runs_steps_after:
  "runs_steps dt n \<Longrightarrow> after_steps n dt < FIXED_TIMESTEP"
  by (induction n arbitrary: dt) simp_all

lemma runs_steps_before:
  "runs_steps dt n \<Longrightarrow> k < n \<Longrightarrow> FIXED_TIMESTEP \<le> after_steps k dt"
proof (induction n arbitrary: dt k)
  case 0
  then show ?case by simp
next
  case (Suc n)
  then show ?case by (cases k) simp_all
qed

lemma runs_steps_unique:
  assumes "runs_steps dt n" and "runs_steps dt m"
  shows "n = m"
proof (rule ccontr)
  assume "n \<noteq> m"
  then consider "n < m" | "m < n" by linarith
  then show False
  proof cases
    case 1
    from runs_steps_before [OF assms(2) 1] runs_steps_after [OF assms(1)] show False by simp
  next
    case 2
    from runs_steps_before [OF assms(1) 2] runs_steps_after [OF assms(2)] show False by simp
  qed
qed






































end
